theory Spec2Isabelle
  imports Main
begin

section \<open>Python values and exceptions\<close>

text \<open>
  The module \<open>wagtail/contrib/modeladmin/options.py\<close> is configuration code: classes
  whose class-level attributes are read by \<open>get_X\<close> methods. The embedding keeps the
  attribute and method names of the source. Exceptions are values of \<open>error\<close>; a method
  that can raise returns \<open>error + 'a\<close> with \<open>Inl\<close> for the exception.
\<close>

datatype error =
    ImproperlyConfigured string
  | TypeError
  | AttributeError
  | IndexError
  | ExternalError string

text \<open>\<open>ExternalError\<close> stands for an exception that code outside this module raises (a
  helper's constructor, an image's rendition), named by its class.\<close>

text \<open>
  The position of a class below Django's \<open>Model\<close> and Wagtail's \<open>Page\<close>. \<open>Page\<close> is
  itself a subclass of \<open>Model\<close>, so a page class is a model class too.
\<close>

datatype class_kind = PlainClass | ModelClass | PageClass

datatype base_class = Model | Page

text \<open>One field of \<open>model._meta.get_fields()\<close>, with the attributes the module reads.
  \<open>related_model\<close> is \<open>None\<close> for Python's \<open>None\<close> and the related class's label otherwise
  (a class is always truthy).\<close>

record field =
  name :: string
  concrete :: bool
  is_relation :: bool
  auto_created :: bool
  related_model :: "string option"

text \<open>\<open>model._meta\<close>: the options object of a model class. Django's metaclass attaches
  it to every class below \<open>Model\<close>; \<open>Model\<close> itself and a class outside the hierarchy
  have none, and \<open>meta\<close> is \<open>None\<close> for them.\<close>

record options =
  app_label :: string
  model_name :: string
  verbose_name_plural :: string
  get_fields :: "field list"

record py_class =
  cls_name :: string
  cls_kind :: class_kind
  meta :: "options option"

text \<open>The Python values a class attribute such as \<open>model\<close> may hold: \<open>None\<close>, a string,
  a number, or a class.\<close>

datatype pyval = PyNone | PyStr string | PyInt int | PyClass py_class

text \<open>Python truthiness: \<open>None\<close>, the empty string and zero are false; a class is true.\<close>

fun truthy :: "pyval \<Rightarrow> bool" where
  "truthy PyNone = False"
| "truthy (PyStr s) = (s \<noteq> [])"
| "truthy (PyInt i) = (i \<noteq> 0)"
| "truthy (PyClass k) = True"

fun kind_below :: "class_kind \<Rightarrow> base_class \<Rightarrow> bool" where
  "kind_below PlainClass b = False"
| "kind_below ModelClass Model = True"
| "kind_below ModelClass Page = False"
| "kind_below PageClass b = True"

text \<open>The builtin \<open>issubclass(v, base)\<close>: it raises \<open>TypeError\<close> when its first argument
  is not a class.\<close>

fun issubclass :: "pyval \<Rightarrow> base_class \<Rightarrow> error + bool" where
  "issubclass (PyClass k) b = Inr (kind_below (cls_kind k) b)"
| "issubclass PyNone b = Inl TypeError"
| "issubclass (PyStr s) b = Inl TypeError"
| "issubclass (PyInt i) b = Inl TypeError"

text \<open>\<open>v._meta\<close>: a missing attribute raises \<open>AttributeError\<close>.\<close>

fun get_meta :: "pyval \<Rightarrow> error + options" where
  "get_meta (PyClass k) = (case meta k of None \<Rightarrow> Inl AttributeError | Some m \<Rightarrow> Inr m)"
| "get_meta PyNone = Inl AttributeError"
| "get_meta (PyStr s) = Inl AttributeError"
| "get_meta (PyInt i) = Inl AttributeError"

section \<open>Helper classes and helper instances\<close>

text \<open>
  The helper classes live in \<open>helpers.py\<close>; this module only chooses between them and
  calls their constructors. A helper class is one of the two classes the module imports
  or a class named by an override attribute. A helper instance records the class it was
  made from and the constructor's arguments. What a constructor does with its arguments
  is code of \<open>helpers.py\<close> (or of the overriding class): whether the call raises is a
  parameter, a function from the class and the arguments to the exception raised, or to
  \<open>None\<close> when the call returns.
\<close>

datatype permission_helper_cls =
  PermissionHelper | PagePermissionHelper | CustomPermissionHelper string

datatype url_helper_cls =
  AdminURLHelper | PageAdminURLHelper | CustomURLHelper string

datatype button_helper_cls =
  ButtonHelper | PageButtonHelper | CustomButtonHelper string

record permission_helper_obj =
  ph_class :: permission_helper_cls
  ph_model :: pyval
  ph_inspect_view_enabled :: bool

record url_helper_obj =
  uh_class :: url_helper_cls
  uh_model :: pyval

record button_helper_obj =
  bh_class :: button_helper_cls

text \<open>\<open>helper_class(model, inspect_view_enabled)\<close> and \<open>helper_class(model)\<close>.\<close>

definition new_permission_helper ::
  "(permission_helper_cls \<Rightarrow> pyval \<Rightarrow> bool \<Rightarrow> error option) \<Rightarrow>
   permission_helper_cls \<Rightarrow> pyval \<Rightarrow> bool \<Rightarrow> error + permission_helper_obj" where
  "new_permission_helper ph_raises h m enabled =
     (case ph_raises h m enabled of
        Some e \<Rightarrow> Inl e
      | None \<Rightarrow> Inr \<lparr>ph_class = h, ph_model = m, ph_inspect_view_enabled = enabled\<rparr>)"

definition new_url_helper ::
  "(url_helper_cls \<Rightarrow> pyval \<Rightarrow> error option) \<Rightarrow>
   url_helper_cls \<Rightarrow> pyval \<Rightarrow> error + url_helper_obj" where
  "new_url_helper uh_raises h m =
     (case uh_raises h m of
        Some e \<Rightarrow> Inl e
      | None \<Rightarrow> Inr \<lparr>uh_class = h, uh_model = m\<rparr>)"

section \<open>ModelAdmin\<close>

text \<open>
  The class-level attributes of a \<open>ModelAdmin\<close> subclass. \<open>class_name\<close> is
  \<open>self.__class__.__name__\<close>. An attribute whose default is \<open>None\<close> is an option; the
  template names default to the empty string, the two inspect lists to the empty list.
  \<open>exclude_from_explorer\<close> is inherited from \<open>WagtailRegisterable\<close>.
\<close>

record modeladmin_cls =
  class_name :: string
  model :: pyval
  menu_label :: "string option"
  menu_icon :: "string option"
  menu_order :: "int option"
  list_display :: "string list"
  list_display_add_buttons :: "string option"
  inspect_view_fields :: "string list"
  inspect_view_fields_exclude :: "string list"
  inspect_view_enabled :: bool
  index_template_name :: string
  create_template_name :: string
  edit_template_name :: string
  inspect_template_name :: string
  delete_template_name :: string
  choose_parent_template_name :: string
  permission_helper_class :: "permission_helper_cls option"
  url_helper_class :: "url_helper_cls option"
  button_helper_class :: "button_helper_cls option"
  exclude_from_explorer :: bool

text \<open>The class-level attributes of a \<open>ModelAdminGroup\<close> subclass. Its \<open>menu_label\<close>,
  \<open>menu_order\<close> and \<open>menu_icon\<close> carry the prefix \<open>group_\<close> here, since a record field
  is a constant of its own.\<close>

record modeladmin_group_cls =
  group_class_name :: string
  items :: "modeladmin_cls list"
  group_menu_label :: "string option"
  group_menu_order :: "int option"
  group_menu_icon :: "string option"

text \<open>
  A \<open>ModelAdmin\<close> instance: its class (\<open>cls\<close>, through which Python finds the class-level
  attributes) and the attributes \<open>__init__\<close> assigns. \<open>parent\<close> refers to the group that
  made the instance, given here by the group's class. The three helper attributes are
  options: \<open>None\<close> stands for an attribute the instance does not have.
\<close>

record modeladmin =
  cls :: modeladmin_cls
  opts :: options
  is_pagemodel :: bool
  parent :: "modeladmin_group_cls option"
  permission_helper :: "permission_helper_obj option"
  url_helper :: "url_helper_obj option"
  button_helper :: "button_helper_obj option"

definition get_permission_helper_class :: "modeladmin \<Rightarrow> permission_helper_cls" where
  "get_permission_helper_class self =
     (case permission_helper_class (cls self) of
        Some h \<Rightarrow> h
      | None \<Rightarrow> if is_pagemodel self then PagePermissionHelper else PermissionHelper)"

definition get_url_helper_class :: "modeladmin \<Rightarrow> url_helper_cls" where
  "get_url_helper_class self =
     (case url_helper_class (cls self) of
        Some h \<Rightarrow> h
      | None \<Rightarrow> if is_pagemodel self then PageAdminURLHelper else AdminURLHelper)"

definition get_button_helper_class :: "modeladmin \<Rightarrow> button_helper_cls" where
  "get_button_helper_class self =
     (case button_helper_class (cls self) of
        Some h \<Rightarrow> h
      | None \<Rightarrow> if is_pagemodel self then PageButtonHelper else ButtonHelper)"

text \<open>The message of the configuration error \<open>__init__\<close> raises.\<close>

definition model_error :: "modeladmin_cls \<Rightarrow> error" where
  "model_error c = ImproperlyConfigured
     (''The model attribute on your '' @ [CHR 0x27] @ class_name c @ [CHR 0x27] @
      '' class must be set, and must be a valid Django model.'')"

text \<open>
  \<open>ModelAdmin.__init__(self, parent)\<close>. The guard is
  \<open>not self.model or not issubclass(self.model, Model)\<close>: Python's \<open>or\<close> evaluates
  \<open>issubclass\<close> only when the model is truthy, and an exception of \<open>issubclass\<close> leaves
  the constructor. So does an exception of \<open>self.model._meta\<close> and of either helper
  constructor. The two helper constructors are called with the classes the resolvers
  return on the object built so far.
\<close>

definition init ::
  "(permission_helper_cls \<Rightarrow> pyval \<Rightarrow> bool \<Rightarrow> error option) \<Rightarrow>
   (url_helper_cls \<Rightarrow> pyval \<Rightarrow> error option) \<Rightarrow>
   modeladmin_cls \<Rightarrow> modeladmin_group_cls option \<Rightarrow> error + modeladmin" where
  "init ph_raises uh_raises c parent_arg =
     (if \<not> truthy (model c) then Inl (model_error c)
      else
        (case issubclass (model c) Model of
           Inl e \<Rightarrow> Inl e
         | Inr is_model \<Rightarrow>
             (if \<not> is_model then Inl (model_error c)
              else
                (case get_meta (model c) of
                   Inl e \<Rightarrow> Inl e
                 | Inr m \<Rightarrow>
                     (case issubclass (model c) Page of
                        Inl e \<Rightarrow> Inl e
                      | Inr is_page \<Rightarrow>
                          (let self0 = \<lparr>cls = c, opts = m, is_pagemodel = is_page,
                                       parent = parent_arg, permission_helper = None,
                                       url_helper = None, button_helper = None\<rparr>
                           in (case new_permission_helper ph_raises
                                      (get_permission_helper_class self0) (model c)
                                      (inspect_view_enabled c) of
                                 Inl e \<Rightarrow> Inl e
                               | Inr ph \<Rightarrow>
                                   (let self1 = self0\<lparr>permission_helper := Some ph\<rparr>
                                    in (case new_url_helper uh_raises
                                               (get_url_helper_class self1) (model c) of
                                          Inl e \<Rightarrow> Inl e
                                        | Inr uh \<Rightarrow>
                                            Inr (self1\<lparr>url_helper := Some uh\<rparr>))))))))))"

text \<open>\<open>get_menu_order\<close>: \<open>self.menu_order or 999\<close>. The number zero is falsy.\<close>

definition get_menu_order :: "modeladmin \<Rightarrow> int" where
  "get_menu_order self =
     (case menu_order (cls self) of
        None \<Rightarrow> 999
      | Some n \<Rightarrow> if n \<noteq> 0 then n else 999)"

text \<open>The request object is not inspected by this module; its type is left open.\<close>

definition get_list_display :: "modeladmin \<Rightarrow> 'req \<Rightarrow> string list" where
  "get_list_display self request = list_display (cls self)"

text \<open>\<open>xs[0]\<close>: an empty sequence raises \<open>IndexError\<close>.\<close>

fun first_item :: "'a list \<Rightarrow> error + 'a" where
  "first_item [] = Inl IndexError"
| "first_item (x # xs) = Inr x"

text \<open>\<open>self.list_display_add_buttons or self.get_list_display(request)[0]\<close>: \<open>None\<close> and
  the empty string are falsy.\<close>

definition get_list_display_add_buttons :: "modeladmin \<Rightarrow> 'req \<Rightarrow> error + string" where
  "get_list_display_add_buttons self request =
     (case list_display_add_buttons (cls self) of
        None \<Rightarrow> first_item (get_list_display self request)
      | Some b \<Rightarrow> if b \<noteq> [] then Inr b else first_item (get_list_display self request))"

text \<open>The loop of \<open>get_inspect_view_fields\<close> over \<open>get_fields()\<close>, with \<open>found_fields\<close>
  as the accumulator.\<close>

fun scan_fields :: "string list \<Rightarrow> field list \<Rightarrow> string list \<Rightarrow> string list" where
  "scan_fields exclude [] found_fields = found_fields"
| "scan_fields exclude (f # fs) found_fields =
     scan_fields exclude fs
       (if name f \<notin> set exclude
        then (if concrete f \<and>
                 (\<not> is_relation f \<or> (\<not> auto_created f \<and> related_model f \<noteq> None))
              then found_fields @ [name f] else found_fields)
        else found_fields)"

text \<open>\<open>get_inspect_view_fields\<close>: an empty \<open>inspect_view_fields\<close> is falsy and starts
  the scan of \<open>self.model._meta.get_fields()\<close>; a populated one is returned as it is.\<close>

definition get_inspect_view_fields :: "modeladmin \<Rightarrow> error + string list" where
  "get_inspect_view_fields self =
     (if inspect_view_fields (cls self) = []
      then (case get_meta (model (cls self)) of
              Inl e \<Rightarrow> Inl e
            | Inr m \<Rightarrow>
                Inr (scan_fields (inspect_view_fields_exclude (cls self)) (get_fields m) []))
      else Inr (inspect_view_fields (cls self)))"

subsection \<open>Template names\<close>

text \<open>A template getter returns either one name (the override, a string) or the list of
  \<open>get_templates\<close>. Python's \<open>str.lower\<close>, which lower-cases every cased character of
  unicode text, is the parameter \<open>lower\<close>.\<close>

datatype template = TemplateName string | TemplateList "string list"

definition get_templates :: "(string \<Rightarrow> string) \<Rightarrow> modeladmin \<Rightarrow> string \<Rightarrow> string list" where
  "get_templates lower self action =
     (let app_label = lower (app_label (opts self));
          model_name = lower (model_name (opts self))
      in [''modeladmin/'' @ app_label @ ''/'' @ model_name @ ''/'' @ action @ ''.html'',
          ''modeladmin/'' @ app_label @ ''/'' @ action @ ''.html'',
          ''modeladmin/'' @ action @ ''.html''])"

text \<open>\<open>override or self.get_templates(action)\<close>: the empty string is falsy.\<close>

definition template_or :: "string \<Rightarrow> string list \<Rightarrow> template" where
  "template_or override fallback =
     (if override \<noteq> [] then TemplateName override else TemplateList fallback)"

definition get_index_template :: "(string \<Rightarrow> string) \<Rightarrow> modeladmin \<Rightarrow> template" where
  "get_index_template lower self =
     template_or (index_template_name (cls self)) (get_templates lower self ''index'')"

definition get_choose_parent_template :: "(string \<Rightarrow> string) \<Rightarrow> modeladmin \<Rightarrow> template" where
  "get_choose_parent_template lower self =
     template_or (choose_parent_template_name (cls self))
       (get_templates lower self ''choose_parent'')"

definition get_inspect_template :: "(string \<Rightarrow> string) \<Rightarrow> modeladmin \<Rightarrow> template" where
  "get_inspect_template lower self =
     template_or (inspect_template_name (cls self)) (get_templates lower self ''inspect'')"

definition get_create_template :: "(string \<Rightarrow> string) \<Rightarrow> modeladmin \<Rightarrow> template" where
  "get_create_template lower self =
     template_or (create_template_name (cls self)) (get_templates lower self ''create'')"

definition get_edit_template :: "(string \<Rightarrow> string) \<Rightarrow> modeladmin \<Rightarrow> template" where
  "get_edit_template lower self =
     template_or (edit_template_name (cls self)) (get_templates lower self ''edit'')"

definition get_delete_template :: "(string \<Rightarrow> string) \<Rightarrow> modeladmin \<Rightarrow> template" where
  "get_delete_template lower self =
     template_or (delete_template_name (cls self)) (get_templates lower self ''delete'')"

subsection \<open>Registration: permissions and URLs\<close>

text \<open>
  A permission queryset is the list of its permissions; \<open>Permission.objects.none()\<close> is
  the empty one. \<open>SNIPPET_MODELS\<close> (of \<open>wagtailsnippets\<close>) and the permission helper's
  \<open>get_all_model_permissions\<close> (of \<open>helpers.py\<close>) are not part of this module and are
  parameters. Reading \<open>self.permission_helper\<close> on an object without that attribute
  raises \<open>AttributeError\<close>.
\<close>

definition get_permissions_for_registration ::
  "pyval list \<Rightarrow> (permission_helper_obj \<Rightarrow> 'perm list) \<Rightarrow> modeladmin \<Rightarrow> error + 'perm list" where
  "get_permissions_for_registration SNIPPET_MODELS get_all_model_permissions self =
     (if \<not> is_pagemodel self \<and> model (cls self) \<notin> set SNIPPET_MODELS
      then (case permission_helper self of
              None \<Rightarrow> Inl AttributeError
            | Some h \<Rightarrow> Inr (get_all_model_permissions h))
      else Inr [])"

text \<open>The views a URL is routed to: the bound methods of the instance.\<close>

datatype view =
  index_view | create_view | edit_view | delete_view | inspect_view | choose_parent_view

text \<open>\<open>url(pattern, view, name=name)\<close>.\<close>

record url =
  regex :: string
  callback :: view
  url_name :: string

text \<open>
  \<open>get_admin_urls_for_registration\<close>. The URL helper's \<open>get_action_url_pattern\<close> and
  \<open>get_action_url_name\<close> (of \<open>helpers.py\<close>) are parameters.
\<close>

definition action_url ::
  "(url_helper_obj \<Rightarrow> string \<Rightarrow> string) \<Rightarrow> (url_helper_obj \<Rightarrow> string \<Rightarrow> string) \<Rightarrow>
   url_helper_obj \<Rightarrow> string \<Rightarrow> view \<Rightarrow> url" where
  "action_url get_action_url_pattern get_action_url_name h action v =
     \<lparr>regex = get_action_url_pattern h action, callback = v,
      url_name = get_action_url_name h action\<rparr>"

definition get_admin_urls_for_registration ::
  "(url_helper_obj \<Rightarrow> string \<Rightarrow> string) \<Rightarrow> (url_helper_obj \<Rightarrow> string \<Rightarrow> string) \<Rightarrow>
   modeladmin \<Rightarrow> error + url list" where
  "get_admin_urls_for_registration get_action_url_pattern get_action_url_name self =
     (case url_helper self of
        None \<Rightarrow> Inl AttributeError
      | Some h \<Rightarrow>
          (let mk = action_url get_action_url_pattern get_action_url_name h;
               urls = [mk ''index'' index_view, mk ''create'' create_view,
                       mk ''edit'' edit_view, mk ''delete'' delete_view];
               urls = (if inspect_view_enabled (cls self)
                       then urls @ [mk ''inspect'' inspect_view] else urls);
               urls = (if is_pagemodel self
                       then urls @ [mk ''choose_parent'' choose_parent_view] else urls)
           in Inr urls))"

section \<open>ModelAdminGroup\<close>

record modeladmin_group =
  group_cls :: modeladmin_group_cls
  modeladmin_instances :: "modeladmin list"

text \<open>The loop of \<open>ModelAdminGroup.__init__\<close>: each class of \<open>items\<close> is instantiated
  with the group as parent and appended; an exception of a member's constructor leaves
  the loop.\<close>

fun init_items ::
  "(permission_helper_cls \<Rightarrow> pyval \<Rightarrow> bool \<Rightarrow> error option) \<Rightarrow>
   (url_helper_cls \<Rightarrow> pyval \<Rightarrow> error option) \<Rightarrow>
   modeladmin_group_cls \<Rightarrow> modeladmin_cls list \<Rightarrow> modeladmin list \<Rightarrow> error + modeladmin list" where
  "init_items ph_raises uh_raises g [] instances = Inr instances"
| "init_items ph_raises uh_raises g (c # cs) instances =
     (case init ph_raises uh_raises c (Some g) of
        Inl e \<Rightarrow> Inl e
      | Inr m \<Rightarrow> init_items ph_raises uh_raises g cs (instances @ [m]))"

definition group_init ::
  "(permission_helper_cls \<Rightarrow> pyval \<Rightarrow> bool \<Rightarrow> error option) \<Rightarrow>
   (url_helper_cls \<Rightarrow> pyval \<Rightarrow> error option) \<Rightarrow>
   modeladmin_group_cls \<Rightarrow> error + modeladmin_group" where
  "group_init ph_raises uh_raises g =
     (case init_items ph_raises uh_raises g (items g) [] of
        Inl e \<Rightarrow> Inl e
      | Inr ms \<Rightarrow> Inr \<lparr>group_cls = g, modeladmin_instances = ms\<rparr>)"

text \<open>\<open>ModelAdminGroup.get_menu_order\<close>: \<open>self.menu_order or 999\<close>.\<close>

definition group_get_menu_order :: "modeladmin_group \<Rightarrow> int" where
  "group_get_menu_order self =
     (case group_menu_order (group_cls self) of
        None \<Rightarrow> 999
      | Some n \<Rightarrow> if n \<noteq> 0 then n else 999)"

text \<open>The loop of \<open>ModelAdminGroup.get_admin_urls_for_registration\<close>:
  \<open>urls += instance.get_admin_urls_for_registration()\<close>, starting from the empty tuple.\<close>

fun group_urls_loop ::
  "(url_helper_obj \<Rightarrow> string \<Rightarrow> string) \<Rightarrow> (url_helper_obj \<Rightarrow> string \<Rightarrow> string) \<Rightarrow>
   modeladmin list \<Rightarrow> url list \<Rightarrow> error + url list" where
  "group_urls_loop pat nm [] urls = Inr urls"
| "group_urls_loop pat nm (instance # rest) urls =
     (case get_admin_urls_for_registration pat nm instance of
        Inl e \<Rightarrow> Inl e
      | Inr us \<Rightarrow> group_urls_loop pat nm rest (urls @ us))"

definition group_get_admin_urls_for_registration ::
  "(url_helper_obj \<Rightarrow> string \<Rightarrow> string) \<Rightarrow> (url_helper_obj \<Rightarrow> string \<Rightarrow> string) \<Rightarrow>
   modeladmin_group \<Rightarrow> error + url list" where
  "group_get_admin_urls_for_registration pat nm self =
     group_urls_loop pat nm (modeladmin_instances self) []"

section \<open>ThumbnailMixin\<close>

text \<open>
  The attributes of the mixin. \<open>thumb_default\<close> is \<open>None\<close> unless overridden. The listed
  object is a finite map from attribute names to values; a value is an image, named by
  its title, or any other Python value, \<open>None\<close> among them.
  \<open>image.get_rendition(Filter(spec=...)).url\<close> belongs to \<open>wagtailimages\<close> and is a
  parameter, taking the image and the filter spec to the URL or to the exception raised.
\<close>

record thumbnail_mixin =
  mixin_class_name :: string
  thumb_image_field_name :: string
  thumb_image_filter_spec :: string
  thumb_image_width :: nat
  thumb_classname :: string
  thumb_default :: "string option"

datatype attr_value = AttrImage string | AttrValue pyval

text \<open>An image object is truthy.\<close>

fun truthy_attr :: "attr_value \<Rightarrow> bool" where
  "truthy_attr (AttrImage i) = True"
| "truthy_attr (AttrValue v) = truthy v"

text \<open>\<open>image.get_rendition(fltr).url\<close>: a value that is no image has no attribute
  \<open>get_rendition\<close>.\<close>

fun rendition_url ::
  "(string \<Rightarrow> string \<Rightarrow> error + string) \<Rightarrow> attr_value \<Rightarrow> string \<Rightarrow> error + string" where
  "rendition_url get_rendition_url (AttrImage i) spec = get_rendition_url i spec"
| "rendition_url get_rendition_url (AttrValue v) spec = Inl AttributeError"

text \<open>The dictionary \<open>img_attrs\<close> (its key \<open>class\<close> is the field \<open>img_class\<close>), and the
  result: the empty string or the marked-safe \<open>img\<close> element made from the dictionary.\<close>

record img_attrs =
  src :: "string option"
  width :: nat
  img_class :: string

datatype markup = EmptyString | ImgTag img_attrs

text \<open>
  \<open>getattr(obj, name, default)\<close> with three arguments: a missing attribute gives the
  default, and no \<open>AttributeError\<close> leaves the call.
\<close>

definition getattr_default :: "(string \<rightharpoonup> attr_value) \<Rightarrow> string \<Rightarrow> attr_value \<Rightarrow> error + attr_value" where
  "getattr_default obj attr default_value =
     (case obj attr of None \<Rightarrow> Inr default_value | Some v \<Rightarrow> Inr v)"

definition thumb_error :: "thumbnail_mixin \<Rightarrow> error" where
  "thumb_error self = ImproperlyConfigured
     (''The `thumb_image_field_name` attribute on your `'' @ mixin_class_name self @
      ''` class must name a field on your model.'')"

text \<open>\<open>admin_thumb\<close>. Only the \<open>getattr\<close> call stands inside the \<open>try\<close>; the rendition
  is made outside it, and its exceptions leave the method as they are.\<close>

definition admin_thumb ::
  "(string \<Rightarrow> string \<Rightarrow> error + string) \<Rightarrow> thumbnail_mixin \<Rightarrow> (string \<rightharpoonup> attr_value) \<Rightarrow>
   error + markup" where
  "admin_thumb get_rendition_url self obj =
     (case getattr_default obj (thumb_image_field_name self) (AttrValue PyNone) of
        Inl AttributeError \<Rightarrow> Inl (thumb_error self)
      | Inl e \<Rightarrow> Inl e
      | Inr image_value \<Rightarrow>
          (let img_attrs = \<lparr>src = thumb_default self, width = thumb_image_width self,
                            img_class = thumb_classname self\<rparr>
           in if truthy_attr image_value
              then (case rendition_url get_rendition_url image_value
                           (thumb_image_filter_spec self) of
                      Inl e \<Rightarrow> Inl e
                    | Inr u \<Rightarrow> Inr (ImgTag (img_attrs\<lparr>src := Some u\<rparr>)))
              else (case thumb_default self of
                      None \<Rightarrow> Inr EmptyString
                    | Some d \<Rightarrow> if d \<noteq> [] then Inr (ImgTag img_attrs) else Inr EmptyString)))"

section \<open>Example configurations\<close>

text \<open>The attribute values of the class \<open>ModelAdmin\<close> itself, which a subclass
  inherits unless it overrides them.\<close>

definition ModelAdmin :: modeladmin_cls where
  "ModelAdmin =
     \<lparr>class_name = ''ModelAdmin'', model = PyNone, menu_label = None, menu_icon = None,
      menu_order = None, list_display = [''__str__''], list_display_add_buttons = None,
      inspect_view_fields = [], inspect_view_fields_exclude = [],
      inspect_view_enabled = False, index_template_name = [], create_template_name = [],
      edit_template_name = [], inspect_template_name = [], delete_template_name = [],
      choose_parent_template_name = [], permission_helper_class = None,
      url_helper_class = None, button_helper_class = None,
      exclude_from_explorer = False\<rparr>"

text \<open>A model \<open>Book\<close> of the app \<open>Library\<close> with a primary key, a title, a foreign key
  and a reverse relation; a page model \<open>EventPage\<close>; and \<open>django.db.models.Model\<close>
  itself, which has no \<open>_meta\<close>.\<close>

definition Book_meta :: options where
  "Book_meta =
     \<lparr>app_label = ''Library'', model_name = ''book'', verbose_name_plural = ''books'',
      get_fields =
        [\<lparr>name = ''id'', concrete = True, is_relation = False, auto_created = True,
          related_model = None\<rparr>,
         \<lparr>name = ''title'', concrete = True, is_relation = False, auto_created = False,
          related_model = None\<rparr>,
         \<lparr>name = ''author'', concrete = True, is_relation = True, auto_created = False,
          related_model = Some ''library.Author''\<rparr>,
         \<lparr>name = ''loans'', concrete = False, is_relation = True, auto_created = True,
          related_model = Some ''library.Loan''\<rparr>]\<rparr>"

definition Book :: pyval where
  "Book = PyClass \<lparr>cls_name = ''Book'', cls_kind = ModelClass, meta = Some Book_meta\<rparr>"

definition EventPage_meta :: options where
  "EventPage_meta =
     \<lparr>app_label = ''events'', model_name = ''eventpage'',
      verbose_name_plural = ''event pages'', get_fields = []\<rparr>"

definition EventPage :: pyval where
  "EventPage = PyClass \<lparr>cls_name = ''EventPage'', cls_kind = PageClass, meta = Some EventPage_meta\<rparr>"

definition DjangoModel :: pyval where
  "DjangoModel = PyClass \<lparr>cls_name = ''Model'', cls_kind = ModelClass, meta = None\<rparr>"

text \<open>Helper constructors that return for every class and argument, and a permission
  helper constructor that fails for one overriding class.\<close>

definition ph_returns :: "permission_helper_cls \<Rightarrow> pyval \<Rightarrow> bool \<Rightarrow> error option" where
  "ph_returns h m enabled = None"

definition uh_returns :: "url_helper_cls \<Rightarrow> pyval \<Rightarrow> error option" where
  "uh_returns h m = None"

definition ph_strict :: "permission_helper_cls \<Rightarrow> pyval \<Rightarrow> bool \<Rightarrow> error option" where
  "ph_strict h m enabled =
     (if h = CustomPermissionHelper ''StrictHelper'' then Some (ExternalError ''ValueError'')
      else None)"

text \<open>\<open>str.lower\<close> as it acts on ASCII text, for the examples: the letters \<open>A\<close> to
  \<open>Z\<close> (codes 65 to 90) move up by 32, every other character stays.\<close>

definition lower_char :: "char \<Rightarrow> char" where
  "lower_char c =
     (if 65 \<le> (of_char c :: nat) \<and> (of_char c :: nat) \<le> 90
      then char_of ((of_char c :: nat) + 32) else c)"

definition ascii_lower :: "string \<Rightarrow> string" where
  "ascii_lower s = map lower_char s"

definition BookAdmin :: modeladmin_cls where
  "BookAdmin = ModelAdmin\<lparr>class_name := ''BookAdmin'', model := Book\<rparr>"

definition EventPageAdmin :: modeladmin_cls where
  "EventPageAdmin = ModelAdmin\<lparr>class_name := ''EventPageAdmin'', model := EventPage,
     inspect_view_enabled := True\<rparr>"

text \<open>A subclass whose \<open>model\<close> is \<open>Model\<close> itself, and one whose permission helper
  class is the overriding class that \<open>ph_strict\<close> lets fail.\<close>

definition RootAdmin :: modeladmin_cls where
  "RootAdmin = ModelAdmin\<lparr>class_name := ''RootAdmin'', model := DjangoModel\<rparr>"

definition StrictAdmin :: modeladmin_cls where
  "StrictAdmin = BookAdmin\<lparr>class_name := ''StrictAdmin'',
     permission_helper_class := Some (CustomPermissionHelper ''StrictHelper'')\<rparr>"

text \<open>A subclass whose \<open>model\<close> is the dotted name of a model, a string, in place of
  the class.\<close>

definition LazyAdmin :: modeladmin_cls where
  "LazyAdmin = ModelAdmin\<lparr>class_name := ''LazyAdmin'', model := PyStr ''library.Book''\<rparr>"

text \<open>A subclass that both lists \<open>title\<close> for the inspect view and excludes it.\<close>

definition TitleAdmin :: modeladmin_cls where
  "TitleAdmin = BookAdmin\<lparr>class_name := ''TitleAdmin'',
     inspect_view_fields := [''title''], inspect_view_fields_exclude := [''title'']\<rparr>"

text \<open>A subclass that excludes \<open>title\<close> and leaves \<open>inspect_view_fields\<close> empty.\<close>

definition NoTitleAdmin :: modeladmin_cls where
  "NoTitleAdmin = BookAdmin\<lparr>class_name := ''NoTitleAdmin'',
     inspect_view_fields_exclude := [''title'']\<rparr>"

text \<open>A subclass that asks for the first place in the menu.\<close>

definition FirstAdmin :: modeladmin_cls where
  "FirstAdmin = BookAdmin\<lparr>class_name := ''FirstAdmin'', menu_order := Some 0\<rparr>"

text \<open>A subclass with an empty \<open>list_display\<close>.\<close>

definition BareAdmin :: modeladmin_cls where
  "BareAdmin = BookAdmin\<lparr>class_name := ''BareAdmin'', list_display := []\<rparr>"

text \<open>The instance \<open>__init__\<close> builds from a class whose model is \<open>Book\<close> and which
  overrides no helper class.\<close>

definition book_instance :: "modeladmin_cls \<Rightarrow> modeladmin" where
  "book_instance c =
     \<lparr>cls = c, opts = Book_meta, is_pagemodel = False, parent = None,
      permission_helper = Some \<lparr>ph_class = PermissionHelper, ph_model = Book,
                                ph_inspect_view_enabled = inspect_view_enabled c\<rparr>,
      url_helper = Some \<lparr>uh_class = AdminURLHelper, uh_model = Book\<rparr>,
      button_helper = None\<rparr>"

definition LibraryGroup :: modeladmin_group_cls where
  "LibraryGroup =
     \<lparr>group_class_name = ''LibraryGroup'', items = [BookAdmin, EventPageAdmin],
      group_menu_label = None, group_menu_order = Some 0, group_menu_icon = None\<rparr>"

text \<open>Stand-ins for the URL helper's two methods and for the permission helper's
  \<open>get_all_model_permissions\<close>, used where a property is evaluated on an example.\<close>

definition example_url_pattern :: "url_helper_obj \<Rightarrow> string \<Rightarrow> string" where
  "example_url_pattern h action =
     (case get_meta (uh_model h) of
        Inr m \<Rightarrow> app_label m @ ''/'' @ model_name m @ ''/'' @ action
      | Inl e \<Rightarrow> action)"

definition example_url_name :: "url_helper_obj \<Rightarrow> string \<Rightarrow> string" where
  "example_url_name h action =
     (case get_meta (uh_model h) of
        Inr m \<Rightarrow> app_label m @ ''_'' @ model_name m @ ''_modeladmin_'' @ action
      | Inl e \<Rightarrow> action)"

definition example_permissions :: "permission_helper_obj \<Rightarrow> string list" where
  "example_permissions h =
     (case get_meta (ph_model h) of
        Inr m \<Rightarrow> [''add_'' @ model_name m, ''change_'' @ model_name m,
                  ''delete_'' @ model_name m]
      | Inl e \<Rightarrow> [])"

text \<open>The mixin's own attribute values, and a listed object without an \<open>image\<close>
  attribute.\<close>

definition ThumbnailMixin :: thumbnail_mixin where
  "ThumbnailMixin =
     \<lparr>mixin_class_name = ''ThumbnailMixin'', thumb_image_field_name = ''image'',
      thumb_image_filter_spec = ''fill-100x100'', thumb_image_width = 50,
      thumb_classname = ''admin-thumb'', thumb_default = None\<rparr>"

definition plain_object :: "string \<rightharpoonup> attr_value" where
  "plain_object = [''title'' \<mapsto> AttrValue PyNone]"

definition example_rendition_url :: "string \<Rightarrow> string \<Rightarrow> error + string" where
  "example_rendition_url i spec = Inr (''/media/images/'' @ i @ ''.'' @ spec @ ''.jpg'')"

text \<open>A subclass that overrides the button helper class only.\<close>

definition CustomAdmin :: modeladmin_cls where
  "CustomAdmin = BookAdmin\<lparr>class_name := ''CustomAdmin'',
     button_helper_class := Some (CustomButtonHelper ''BookButtonHelper'')\<rparr>"

text \<open>The instance \<open>__init__\<close> builds from \<open>EventPageAdmin\<close>, and the group object
  \<open>ModelAdminGroup.__init__\<close> builds from \<open>LibraryGroup\<close>.\<close>

definition event_instance :: "modeladmin_group_cls option \<Rightarrow> modeladmin" where
  "event_instance p =
     \<lparr>cls = EventPageAdmin, opts = EventPage_meta, is_pagemodel = True, parent = p,
      permission_helper = Some \<lparr>ph_class = PagePermissionHelper, ph_model = EventPage,
                                ph_inspect_view_enabled = True\<rparr>,
      url_helper = Some \<lparr>uh_class = PageAdminURLHelper, uh_model = EventPage\<rparr>,
      button_helper = None\<rparr>"

definition library_group :: modeladmin_group where
  "library_group =
     \<lparr>group_cls = LibraryGroup,
      modeladmin_instances =
        [(book_instance BookAdmin)\<lparr>parent := Some LibraryGroup\<rparr>,
         event_instance (Some LibraryGroup)]\<rparr>"

text \<open>The URL tuples of the two members of \<open>library_group\<close> under the stand-in URL
  helper methods.\<close>

definition book_urls :: "url list" where
  "book_urls =
     [\<lparr>regex = ''Library/book/index'', callback = index_view,
       url_name = ''Library_book_modeladmin_index''\<rparr>,
      \<lparr>regex = ''Library/book/create'', callback = create_view,
       url_name = ''Library_book_modeladmin_create''\<rparr>,
      \<lparr>regex = ''Library/book/edit'', callback = edit_view,
       url_name = ''Library_book_modeladmin_edit''\<rparr>,
      \<lparr>regex = ''Library/book/delete'', callback = delete_view,
       url_name = ''Library_book_modeladmin_delete''\<rparr>]"

definition event_urls :: "url list" where
  "event_urls =
     [\<lparr>regex = ''events/eventpage/index'', callback = index_view,
       url_name = ''events_eventpage_modeladmin_index''\<rparr>,
      \<lparr>regex = ''events/eventpage/create'', callback = create_view,
       url_name = ''events_eventpage_modeladmin_create''\<rparr>,
      \<lparr>regex = ''events/eventpage/edit'', callback = edit_view,
       url_name = ''events_eventpage_modeladmin_edit''\<rparr>,
      \<lparr>regex = ''events/eventpage/delete'', callback = delete_view,
       url_name = ''events_eventpage_modeladmin_delete''\<rparr>,
      \<lparr>regex = ''events/eventpage/inspect'', callback = inspect_view,
       url_name = ''events_eventpage_modeladmin_inspect''\<rparr>,
      \<lparr>regex = ''events/eventpage/choose_parent'', callback = choose_parent_view,
       url_name = ''events_eventpage_modeladmin_choose_parent''\<rparr>]"

section \<open>Construction\<close>

lemmas example_defs =
  ModelAdmin_def Book_def Book_meta_def EventPage_def EventPage_meta_def DjangoModel_def
  BookAdmin_def EventPageAdmin_def RootAdmin_def StrictAdmin_def LazyAdmin_def TitleAdmin_def
  NoTitleAdmin_def FirstAdmin_def BareAdmin_def CustomAdmin_def book_instance_def
  event_instance_def ph_returns_def uh_returns_def ph_strict_def

lemmas init_defs =
  init_def Let_def new_permission_helper_def new_url_helper_def
  get_permission_helper_class_def get_url_helper_class_def

text \<open>What \<open>__init__\<close> returns when the model is a class below \<open>Model\<close> that carries
  \<open>_meta\<close> and both helper constructors return.\<close>

lemma init_class:
  assumes "model c = PyClass k" and "kind_below (cls_kind k) Model" and "meta k = Some m"
    and "ph_raises (case permission_helper_class c of Some h \<Rightarrow> h
                     | None \<Rightarrow> if kind_below (cls_kind k) Page
                               then PagePermissionHelper else PermissionHelper)
           (model c) (inspect_view_enabled c) = None"
    and "uh_raises (case url_helper_class c of Some h \<Rightarrow> h
                     | None \<Rightarrow> if kind_below (cls_kind k) Page
                               then PageAdminURLHelper else AdminURLHelper)
           (model c) = None"
  shows "init ph_raises uh_raises c p =
     Inr \<lparr>cls = c, opts = m, is_pagemodel = kind_below (cls_kind k) Page, parent = p,
          permission_helper = Some
            \<lparr>ph_class = (case permission_helper_class c of Some h \<Rightarrow> h
                          | None \<Rightarrow> if kind_below (cls_kind k) Page
                                    then PagePermissionHelper else PermissionHelper),
             ph_model = model c, ph_inspect_view_enabled = inspect_view_enabled c\<rparr>,
          url_helper = Some
            \<lparr>uh_class = (case url_helper_class c of Some h \<Rightarrow> h
                          | None \<Rightarrow> if kind_below (cls_kind k) Page
                                    then PageAdminURLHelper else AdminURLHelper),
             uh_model = model c\<rparr>,
          button_helper = None\<rparr>"
  using assms
  by (cases "kind_below (cls_kind k) Page"; cases "permission_helper_class c";
      cases "url_helper_class c")
     (simp_all add: init_defs)

text \<open>Only such a class gets through the constructor, and the object is the one above.\<close>

lemma init_Inr_class:
  assumes "init ph_raises uh_raises c p = Inr self"
  shows "\<exists>k m. model c = PyClass k \<and> kind_below (cls_kind k) Model \<and> meta k = Some m \<and>
     self =
       \<lparr>cls = c, opts = m, is_pagemodel = kind_below (cls_kind k) Page, parent = p,
        permission_helper = Some
          \<lparr>ph_class = (case permission_helper_class c of Some h \<Rightarrow> h
                        | None \<Rightarrow> if kind_below (cls_kind k) Page
                                  then PagePermissionHelper else PermissionHelper),
           ph_model = model c, ph_inspect_view_enabled = inspect_view_enabled c\<rparr>,
        url_helper = Some
          \<lparr>uh_class = (case url_helper_class c of Some h \<Rightarrow> h
                        | None \<Rightarrow> if kind_below (cls_kind k) Page
                                  then PageAdminURLHelper else AdminURLHelper),
           uh_model = model c\<rparr>,
        button_helper = None\<rparr>"
proof (cases "model c")
  case (PyClass k)
  with assms show ?thesis
    by (cases "kind_below (cls_kind k) Page"; cases "permission_helper_class c";
        cases "url_helper_class c")
       (auto simp: init_defs split: if_splits option.splits)
qed (use assms in \<open>auto simp: init_def split: if_splits\<close>)

text \<open>The outcomes that end in an exception. A falsy model (\<open>None\<close> among them) and a
  class outside \<open>Model\<close> raise the configuration error, before any helper is made; a
  truthy value that is no class raises \<open>TypeError\<close> inside \<open>issubclass\<close>; a class below
  \<open>Model\<close> without \<open>_meta\<close> raises \<open>AttributeError\<close>; an exception of a helper
  constructor leaves \<open>__init__\<close>.\<close>

lemma init_unset_model:
  "model c = PyNone \<Longrightarrow> init ph_raises uh_raises c p = Inl (model_error c)"
  by (simp add: init_def)

lemma init_falsy_model:
  "\<not> truthy (model c) \<Longrightarrow> init ph_raises uh_raises c p = Inl (model_error c)"
  by (simp add: init_def)

lemma init_other_class:
  "model c = PyClass k \<Longrightarrow> \<not> kind_below (cls_kind k) Model \<Longrightarrow>
   init ph_raises uh_raises c p = Inl (model_error c)"
  by (simp add: init_def)

lemma init_truthy_non_class:
  "truthy (model c) \<Longrightarrow> (\<forall>k. model c \<noteq> PyClass k) \<Longrightarrow>
   init ph_raises uh_raises c p = Inl TypeError"
  by (cases "model c") (simp_all add: init_def)

lemma init_no_meta:
  "model c = PyClass k \<Longrightarrow> kind_below (cls_kind k) Model \<Longrightarrow> meta k = None \<Longrightarrow>
   init ph_raises uh_raises c p = Inl AttributeError"
  by (simp add: init_def)

lemma init_permission_helper_raises:
  assumes "model c = PyClass k" and "kind_below (cls_kind k) Model" and "meta k = Some m"
    and "ph_raises (case permission_helper_class c of Some h \<Rightarrow> h
                     | None \<Rightarrow> if kind_below (cls_kind k) Page
                               then PagePermissionHelper else PermissionHelper)
           (model c) (inspect_view_enabled c) = Some e"
  shows "init ph_raises uh_raises c p = Inl e"
  using assms
  by (cases "kind_below (cls_kind k) Page"; cases "permission_helper_class c";
      cases "url_helper_class c")
     (simp_all add: init_defs)

lemma init_url_helper_raises:
  assumes "model c = PyClass k" and "kind_below (cls_kind k) Model" and "meta k = Some m"
    and "ph_raises (case permission_helper_class c of Some h \<Rightarrow> h
                     | None \<Rightarrow> if kind_below (cls_kind k) Page
                               then PagePermissionHelper else PermissionHelper)
           (model c) (inspect_view_enabled c) = None"
    and "uh_raises (case url_helper_class c of Some h \<Rightarrow> h
                     | None \<Rightarrow> if kind_below (cls_kind k) Page
                               then PageAdminURLHelper else AdminURLHelper)
           (model c) = Some e"
  shows "init ph_raises uh_raises c p = Inl e"
  using assms
  by (cases "kind_below (cls_kind k) Page"; cases "permission_helper_class c";
      cases "url_helper_class c")
     (simp_all add: init_defs)

text \<open>The example classes, constructed.\<close>

lemma init_BookAdmin:
  "init ph_returns uh_returns BookAdmin p = Inr ((book_instance BookAdmin)\<lparr>parent := p\<rparr>)"
  by (simp add: init_defs example_defs)

lemma init_EventPageAdmin: "init ph_returns uh_returns EventPageAdmin p = Inr (event_instance p)"
  by (simp add: init_defs example_defs)

lemma group_init_LibraryGroup: "group_init ph_returns uh_returns LibraryGroup = Inr library_group"
  by (simp add: group_init_def LibraryGroup_def library_group_def init_BookAdmin
      init_EventPageAdmin)

lemma init_RootAdmin: "init ph_raises uh_raises RootAdmin p = Inl AttributeError"
  by (simp add: init_def example_defs)

lemma init_StrictAdmin:
  "init ph_strict uh_returns StrictAdmin p = Inl (ExternalError ''ValueError'')"
  by (simp add: init_defs example_defs)

text \<open>
  Claim C1: a \<open>ModelAdmin\<close> subclass whose \<open>model\<close> is unset or is not a valid Django
  model class fails in \<open>__init__\<close> with \<open>ImproperlyConfigured\<close>. The subclass
  \<open>LazyAdmin\<close> names its model by the string \<open>library.Book\<close>, which is no model class;
  its construction ends in \<open>TypeError\<close>, raised by \<open>issubclass\<close>, and not in the
  configuration error.
\<close>

theorem init_string_model_TypeError:
  "init ph_raises uh_raises LazyAdmin None = Inl TypeError \<and>
   init ph_raises uh_raises LazyAdmin None \<noteq> Inl (model_error LazyAdmin)"
  by (simp add: init_def example_defs model_error_def)

text \<open>
  Claim C2, as the code has it: for a subclass whose \<open>model\<close> is a class below \<open>Model\<close>
  that carries \<open>_meta\<close>, and whose two helper constructors return, construction succeeds
  and leaves two helper instances on the object, the permission helper and the URL
  helper, each made from the class its resolver returns; no button helper is made.
\<close>

theorem init_valid_model:
  assumes "issubclass (model c) Model = Inr True"
    and "get_meta (model c) = Inr m"
    and "issubclass (model c) Page = Inr page"
    and "ph_raises (case permission_helper_class c of Some h \<Rightarrow> h
                     | None \<Rightarrow> if page then PagePermissionHelper else PermissionHelper)
           (model c) (inspect_view_enabled c) = None"
    and "uh_raises (case url_helper_class c of Some h \<Rightarrow> h
                     | None \<Rightarrow> if page then PageAdminURLHelper else AdminURLHelper)
           (model c) = None"
  shows "\<exists>self. init ph_raises uh_raises c p = Inr self \<and> cls self = c \<and> opts self = m \<and>
           permission_helper self =
             Some \<lparr>ph_class = get_permission_helper_class self, ph_model = model c,
                   ph_inspect_view_enabled = inspect_view_enabled c\<rparr> \<and>
           url_helper self = Some \<lparr>uh_class = get_url_helper_class self, uh_model = model c\<rparr> \<and>
           button_helper self = None"
proof -
  from assms(1) obtain k where k: "model c = PyClass k" "kind_below (cls_kind k) Model"
    by (cases "model c") auto
  from assms(2) k have m: "meta k = Some m"
    by (auto split: option.splits)
  from assms(3) k have page: "page = kind_below (cls_kind k) Page"
    by auto
  show ?thesis
    using assms(4,5) unfolding page
    by (simp add: init_class [OF k m] get_permission_helper_class_def
        get_url_helper_class_def k)
qed

theorem init_valid_model_witness:
  "issubclass (model BookAdmin) Model = Inr True \<and>
   get_meta (model BookAdmin) = Inr Book_meta \<and>
   issubclass (model BookAdmin) Page = Inr False \<and>
   ph_returns PermissionHelper (model BookAdmin) (inspect_view_enabled BookAdmin) = None \<and>
   uh_returns AdminURLHelper (model BookAdmin) = None \<and>
   (\<exists>self. init ph_returns uh_returns BookAdmin None = Inr self \<and> cls self = BookAdmin \<and>
           opts self = Book_meta \<and>
           permission_helper self =
             Some \<lparr>ph_class = get_permission_helper_class self, ph_model = model BookAdmin,
                   ph_inspect_view_enabled = inspect_view_enabled BookAdmin\<rparr> \<and>
           url_helper self =
             Some \<lparr>uh_class = get_url_helper_class self, uh_model = model BookAdmin\<rparr> \<and>
           button_helper self = None)"
proof -
  have h1: "issubclass (model BookAdmin) Model = Inr True"
    and h2: "get_meta (model BookAdmin) = Inr Book_meta"
    and h3: "issubclass (model BookAdmin) Page = Inr False"
    by (simp_all add: BookAdmin_def ModelAdmin_def Book_def)
  have h4: "ph_returns (case permission_helper_class BookAdmin of Some h \<Rightarrow> h
                        | None \<Rightarrow> if False then PagePermissionHelper else PermissionHelper)
              (model BookAdmin) (inspect_view_enabled BookAdmin) = None"
    by (simp add: ph_returns_def)
  have h5: "uh_returns (case url_helper_class BookAdmin of Some h \<Rightarrow> h
                        | None \<Rightarrow> if False then PageAdminURLHelper else AdminURLHelper)
              (model BookAdmin) = None"
    by (simp add: uh_returns_def)
  from init_valid_model [where c = BookAdmin and m = Book_meta and page = False
      and ph_raises = ph_returns and uh_raises = uh_returns and p = None, OF h1 h2 h3 h4 h5]
    h1 h2 h3
  show ?thesis by (simp add: ph_returns_def uh_returns_def)
qed

text \<open>Claim C2 as stated fails: \<open>BookAdmin\<close> has a valid model, its construction
  succeeds, and the object has no button helper.\<close>

theorem init_no_button_helper:
  "issubclass (model BookAdmin) Model = Inr True \<and>
   init ph_returns uh_returns BookAdmin None = Inr (book_instance BookAdmin) \<and>
   button_helper (book_instance BookAdmin) = None"
  by (simp add: init_defs example_defs)

section \<open>Inspect-view fields\<close>

text \<open>The scan keeps, in order, the names of the fields that pass both tests.\<close>

lemma scan_fields_eq:
  "scan_fields exclude fs found =
     found @ map name (filter (\<lambda>f. name f \<notin> set exclude \<and> concrete f \<and>
                (\<not> is_relation f \<or> (\<not> auto_created f \<and> related_model f \<noteq> None))) fs)"
  by (induction fs arbitrary: found) auto

lemma scan_fields_excluded:
  "set (scan_fields exclude fs []) \<inter> set exclude = {}"
  by (auto simp: scan_fields_eq)

text \<open>
  Claim C3, as the code has it: on a constructed \<open>ModelAdmin\<close>, when
  \<open>inspect_view_fields\<close> is empty the list of \<open>get_inspect_view_fields()\<close> is derived
  from the model's fields and contains no name of \<open>inspect_view_fields_exclude\<close>; when
  \<open>inspect_view_fields\<close> is populated it is returned unchanged, whatever the exclusion
  list holds.
\<close>

theorem get_inspect_view_fields_excludes:
  assumes "init ph_raises uh_raises c p = Inr self"
  shows "(inspect_view_fields c = [] \<longrightarrow>
            (\<exists>fs. get_inspect_view_fields self = Inr fs \<and>
                  set fs \<inter> set (inspect_view_fields_exclude c) = {})) \<and>
         (inspect_view_fields c \<noteq> [] \<longrightarrow>
            get_inspect_view_fields self = Inr (inspect_view_fields c))"
proof -
  from init_Inr_class [OF assms] obtain k m
    where k: "model c = PyClass k" "meta k = Some m" and "cls self = c" by auto
  then show ?thesis
    by (simp add: get_inspect_view_fields_def scan_fields_excluded)
qed

theorem get_inspect_view_fields_excludes_witness:
  "init ph_returns uh_returns NoTitleAdmin None = Inr (book_instance NoTitleAdmin) \<and>
   inspect_view_fields NoTitleAdmin = [] \<and>
   get_inspect_view_fields (book_instance NoTitleAdmin) = Inr [''id'', ''author''] \<and>
   set [''id'', ''author''] \<inter> set (inspect_view_fields_exclude NoTitleAdmin) = {} \<and>
   init ph_returns uh_returns TitleAdmin None = Inr (book_instance TitleAdmin) \<and>
   inspect_view_fields TitleAdmin \<noteq> [] \<and>
   get_inspect_view_fields (book_instance TitleAdmin) = Inr (inspect_view_fields TitleAdmin)"
proof -
  have a: "init ph_returns uh_returns NoTitleAdmin None = Inr (book_instance NoTitleAdmin)"
    by (simp add: init_defs example_defs)
  have b: "init ph_returns uh_returns TitleAdmin None = Inr (book_instance TitleAdmin)"
    by (simp add: init_defs example_defs)
  have c: "get_inspect_view_fields (book_instance NoTitleAdmin) = Inr [''id'', ''author'']"
    by (simp add: example_defs get_inspect_view_fields_def)
  have d: "inspect_view_fields NoTitleAdmin = []" "inspect_view_fields TitleAdmin \<noteq> []"
    by (simp_all add: example_defs)
  from get_inspect_view_fields_excludes [OF a] get_inspect_view_fields_excludes [OF b] a b c d
  show ?thesis by auto
qed

text \<open>Claim C3 as stated fails: \<open>TitleAdmin\<close> lists \<open>title\<close> in both attributes, and
  \<open>get_inspect_view_fields()\<close> returns the excluded name.\<close>

theorem populated_inspect_view_fields_not_filtered:
  "init ph_returns uh_returns TitleAdmin None = Inr (book_instance TitleAdmin) \<and>
   ''title'' \<in> set (inspect_view_fields_exclude (cls (book_instance TitleAdmin))) \<and>
   get_inspect_view_fields (book_instance TitleAdmin) = Inr [''title'']"
  by (simp add: init_defs example_defs get_inspect_view_fields_def)

section \<open>Menu order\<close>

text \<open>\<open>get_menu_order\<close> returns the attribute unless it is \<open>None\<close> or zero.\<close>

lemma get_menu_order_cases:
  "get_menu_order self =
     (if menu_order (cls self) = None \<or> menu_order (cls self) = Some 0 then 999
      else the (menu_order (cls self)))"
  by (auto simp: get_menu_order_def split: option.splits)

lemma group_get_menu_order_cases:
  "group_get_menu_order self =
     (if group_menu_order (group_cls self) = None \<or> group_menu_order (group_cls self) = Some 0
      then 999 else the (group_menu_order (group_cls self)))"
  by (auto simp: group_get_menu_order_def split: option.splits)

text \<open>
  Claim C4: \<open>get_menu_order()\<close> returns the explicit \<open>menu_order\<close> whenever it is set,
  the value 0 included, and 999 when it is unset. With \<open>menu_order = 0\<close>, the first place
  of the method's docstring, both \<open>ModelAdmin\<close> and \<open>ModelAdminGroup\<close> return 999.
\<close>

theorem menu_order_zero_gives_999:
  "menu_order (cls (book_instance FirstAdmin)) = Some 0 \<and>
   get_menu_order (book_instance FirstAdmin) = 999 \<and>
   group_menu_order (group_cls library_group) = Some 0 \<and>
   group_get_menu_order library_group = 999"
  by (simp add: example_defs get_menu_order_def group_get_menu_order_def LibraryGroup_def
      library_group_def)

section \<open>Template names\<close>

lemma ascii_lower_Library: "ascii_lower ''Library'' = ''library''"
  by (simp add: ascii_lower_def lower_char_def char_of_def bit_Suc_0_iff)

lemma ascii_lower_book: "ascii_lower ''book'' = ''book''"
  by (simp add: ascii_lower_def lower_char_def)

text \<open>
  Claim C5, as the code has it: each of the six template getters returns the per-action
  override when that attribute is a non-empty string, and otherwise the three-element
  list \<open>modeladmin/<app>/<model>/<action>.html\<close>, \<open>modeladmin/<app>/<action>.html\<close>,
  \<open>modeladmin/<action>.html\<close>, in this order, where \<open><app>\<close> and \<open><model>\<close> are what
  \<open>str.lower\<close> (the parameter \<open>lower\<close>) returns on the app label and on the model name
  of the instance's options.
\<close>

theorem template_resolution:
  "get_index_template lower self =
     (if index_template_name (cls self) \<noteq> [] then TemplateName (index_template_name (cls self))
      else TemplateList
        [''modeladmin/'' @ lower (app_label (opts self)) @ ''/'' @
           lower (model_name (opts self)) @ ''/index.html'',
         ''modeladmin/'' @ lower (app_label (opts self)) @ ''/index.html'',
         ''modeladmin/index.html'']) \<and>
   get_create_template lower self =
     (if create_template_name (cls self) \<noteq> [] then TemplateName (create_template_name (cls self))
      else TemplateList
        [''modeladmin/'' @ lower (app_label (opts self)) @ ''/'' @
           lower (model_name (opts self)) @ ''/create.html'',
         ''modeladmin/'' @ lower (app_label (opts self)) @ ''/create.html'',
         ''modeladmin/create.html'']) \<and>
   get_edit_template lower self =
     (if edit_template_name (cls self) \<noteq> [] then TemplateName (edit_template_name (cls self))
      else TemplateList
        [''modeladmin/'' @ lower (app_label (opts self)) @ ''/'' @
           lower (model_name (opts self)) @ ''/edit.html'',
         ''modeladmin/'' @ lower (app_label (opts self)) @ ''/edit.html'',
         ''modeladmin/edit.html'']) \<and>
   get_inspect_template lower self =
     (if inspect_template_name (cls self) \<noteq> []
      then TemplateName (inspect_template_name (cls self))
      else TemplateList
        [''modeladmin/'' @ lower (app_label (opts self)) @ ''/'' @
           lower (model_name (opts self)) @ ''/inspect.html'',
         ''modeladmin/'' @ lower (app_label (opts self)) @ ''/inspect.html'',
         ''modeladmin/inspect.html'']) \<and>
   get_delete_template lower self =
     (if delete_template_name (cls self) \<noteq> [] then TemplateName (delete_template_name (cls self))
      else TemplateList
        [''modeladmin/'' @ lower (app_label (opts self)) @ ''/'' @
           lower (model_name (opts self)) @ ''/delete.html'',
         ''modeladmin/'' @ lower (app_label (opts self)) @ ''/delete.html'',
         ''modeladmin/delete.html'']) \<and>
   get_choose_parent_template lower self =
     (if choose_parent_template_name (cls self) \<noteq> []
      then TemplateName (choose_parent_template_name (cls self))
      else TemplateList
        [''modeladmin/'' @ lower (app_label (opts self)) @ ''/'' @
           lower (model_name (opts self)) @ ''/choose_parent.html'',
         ''modeladmin/'' @ lower (app_label (opts self)) @ ''/choose_parent.html'',
         ''modeladmin/choose_parent.html''])"
  by (simp add: get_index_template_def get_create_template_def get_edit_template_def
      get_inspect_template_def get_delete_template_def get_choose_parent_template_def
      template_or_def get_templates_def Let_def)

text \<open>Claim C5 as stated fails: \<open>BookAdmin\<close> sets no index template, its labels are the
  ASCII words \<open>Library\<close> and \<open>book\<close>, and the list of \<open>get_index_template()\<close> starts with
  \<open>modeladmin/\<close>, not with \<open>admin/\<close>.\<close>

theorem index_template_prefix_modeladmin:
  "init ph_returns uh_returns BookAdmin None = Inr (book_instance BookAdmin) \<and>
   index_template_name (cls (book_instance BookAdmin)) = [] \<and>
   app_label (opts (book_instance BookAdmin)) = ''Library'' \<and>
   model_name (opts (book_instance BookAdmin)) = ''book'' \<and>
   get_index_template ascii_lower (book_instance BookAdmin) =
     TemplateList [''modeladmin/library/book/index.html'', ''modeladmin/library/index.html'',
                   ''modeladmin/index.html''] \<and>
   get_index_template ascii_lower (book_instance BookAdmin) \<noteq>
     TemplateList [''admin/library/book/index.html'', ''admin/library/index.html'',
                   ''admin/index.html'']"
  by (simp add: init_defs example_defs get_index_template_def template_or_def
      get_templates_def ascii_lower_Library ascii_lower_book)

section \<open>URLs of a group\<close>

text \<open>The loop appends the members' tuples to what it has, in member order.\<close>

lemma group_urls_loop_concat:
  "map (get_admin_urls_for_registration pat nm) ms = map Inr us \<Longrightarrow>
   group_urls_loop pat nm ms urls = Inr (urls @ concat us)"
proof (induction ms arbitrary: us urls)
  case Nil
  then show ?case by simp
next
  case (Cons m ms)
  then obtain u us' where us: "us = u # us'"
    and m: "get_admin_urls_for_registration pat nm m = Inr u"
    and rest: "map (get_admin_urls_for_registration pat nm) ms = map Inr us'"
    by (cases us) auto
  from Cons.IH [OF rest] show ?case
    by (simp add: us m)
qed

text \<open>A constructed instance has its URL helper, so its URL tuple is defined; so it is
  for every member of a constructed group, one tuple per class of \<open>items\<close>.\<close>

lemma init_url_helper:
  "init ph_raises uh_raises c p = Inr self \<Longrightarrow> url_helper self \<noteq> None"
  using init_Inr_class [of ph_raises uh_raises c p self] by auto

lemma init_items_url_helper:
  "init_items ph_raises uh_raises g cs acc = Inr ms \<Longrightarrow>
   \<forall>m \<in> set acc. url_helper m \<noteq> None \<Longrightarrow> \<forall>m \<in> set ms. url_helper m \<noteq> None"
proof (induction cs arbitrary: acc)
  case Nil
  then show ?case by simp
next
  case (Cons c cs)
  from Cons.prems(1) obtain m where m: "init ph_raises uh_raises c (Some g) = Inr m"
    and rest: "init_items ph_raises uh_raises g cs (acc @ [m]) = Inr ms"
    by (auto split: sum.splits)
  from init_url_helper [OF m] Cons.prems(2)
  have "\<forall>x \<in> set (acc @ [m]). url_helper x \<noteq> None" by auto
  from Cons.IH [OF rest this] show ?case .
qed

lemma init_items_length:
  "init_items ph_raises uh_raises g cs acc = Inr ms \<Longrightarrow> length ms = length acc + length cs"
  by (induction cs arbitrary: acc) (auto split: sum.splits)

lemma member_urls_total:
  "\<forall>m \<in> set ms. url_helper m \<noteq> None \<Longrightarrow>
   \<exists>us. map (get_admin_urls_for_registration pat nm) ms = map Inr us"
proof (induction ms)
  case Nil
  then show ?case by simp
next
  case (Cons m ms)
  then obtain us where us: "map (get_admin_urls_for_registration pat nm) ms = map Inr us"
    by auto
  from Cons.prems obtain u where "get_admin_urls_for_registration pat nm m = Inr u"
    by (auto simp: get_admin_urls_for_registration_def Let_def)
  with us have "map (get_admin_urls_for_registration pat nm) (m # ms) = map Inr (u # us)"
    by simp
  then show ?case by blast
qed

lemma group_init_urls_defined:
  assumes "group_init ph_raises uh_raises g = Inr grp"
  shows "\<exists>us. length us = length (items g) \<and>
           map (get_admin_urls_for_registration pat nm) (modeladmin_instances grp) = map Inr us"
proof -
  from assms obtain ms where ms: "init_items ph_raises uh_raises g (items g) [] = Inr ms"
    and grp: "modeladmin_instances grp = ms"
    by (auto simp: group_init_def split: sum.splits)
  from init_items_url_helper [OF ms] have "\<forall>m \<in> set ms. url_helper m \<noteq> None" by simp
  from member_urls_total [OF this] obtain us
    where us: "map (get_admin_urls_for_registration pat nm) ms = map Inr us" by blast
  then have "length us = length ms" by (metis length_map)
  with init_items_length [OF ms] us grp show ?thesis by auto
qed

lemma library_group_member_urls:
  "map (get_admin_urls_for_registration example_url_pattern example_url_name)
     (modeladmin_instances library_group) = map Inr [book_urls, event_urls]"
  by (simp add: library_group_def example_defs book_urls_def event_urls_def
      get_admin_urls_for_registration_def action_url_def example_url_pattern_def
      example_url_name_def Let_def)

text \<open>
  Claim C6: for a \<open>ModelAdminGroup\<close> whose members' calls of
  \<open>get_admin_urls_for_registration()\<close> return the tuples \<open>us\<close>, one per member and in
  member order, the group's \<open>get_admin_urls_for_registration()\<close> returns their
  concatenation in that order.
\<close>

theorem group_urls_concat:
  assumes "map (get_admin_urls_for_registration pat nm) (modeladmin_instances g) = map Inr us"
  shows "group_get_admin_urls_for_registration pat nm g = Inr (concat us)"
  using group_urls_loop_concat [OF assms, of "[]"]
  by (simp add: group_get_admin_urls_for_registration_def)

theorem group_urls_concat_witness:
  "group_init ph_returns uh_returns LibraryGroup = Inr library_group \<and>
   map (get_admin_urls_for_registration example_url_pattern example_url_name)
     (modeladmin_instances library_group) = map Inr [book_urls, event_urls] \<and>
   group_get_admin_urls_for_registration example_url_pattern example_url_name library_group =
     Inr (book_urls @ event_urls)"
  using group_urls_concat [OF library_group_member_urls] group_init_LibraryGroup
    library_group_member_urls
  by simp

section \<open>Helper classes\<close>

text \<open>
  Claim C7: on a constructed \<open>ModelAdmin\<close>, each of \<open>get_permission_helper_class\<close>,
  \<open>get_url_helper_class\<close> and \<open>get_button_helper_class\<close> returns the override attribute
  when it is set; otherwise the page-specific helper class exactly when the model is a
  subclass of \<open>Page\<close>, and the generic helper class otherwise.
\<close>

theorem helper_class_resolution:
  assumes "init ph_raises uh_raises c p = Inr self"
  shows "get_permission_helper_class self =
           (case permission_helper_class c of
              Some h \<Rightarrow> h
            | None \<Rightarrow> if issubclass (model c) Page = Inr True
                      then PagePermissionHelper else PermissionHelper) \<and>
         get_url_helper_class self =
           (case url_helper_class c of
              Some h \<Rightarrow> h
            | None \<Rightarrow> if issubclass (model c) Page = Inr True
                      then PageAdminURLHelper else AdminURLHelper) \<and>
         get_button_helper_class self =
           (case button_helper_class c of
              Some h \<Rightarrow> h
            | None \<Rightarrow> if issubclass (model c) Page = Inr True
                      then PageButtonHelper else ButtonHelper)"
proof -
  from init_Inr_class [OF assms] obtain k
    where k: "model c = PyClass k" and "cls self = c"
      and "is_pagemodel self = kind_below (cls_kind k) Page" by auto
  then show ?thesis
    by (simp add: get_permission_helper_class_def get_url_helper_class_def
        get_button_helper_class_def split: option.splits)
qed

theorem helper_class_resolution_witness:
  "init ph_returns uh_returns EventPageAdmin None = Inr (event_instance None) \<and>
   get_permission_helper_class (event_instance None) = PagePermissionHelper \<and>
   get_url_helper_class (event_instance None) = PageAdminURLHelper \<and>
   get_button_helper_class (event_instance None) = PageButtonHelper \<and>
   init ph_returns uh_returns CustomAdmin None = Inr (book_instance CustomAdmin) \<and>
   get_permission_helper_class (book_instance CustomAdmin) = PermissionHelper \<and>
   get_url_helper_class (book_instance CustomAdmin) = AdminURLHelper \<and>
   get_button_helper_class (book_instance CustomAdmin) = CustomButtonHelper ''BookButtonHelper''"
proof -
  have a: "init ph_returns uh_returns EventPageAdmin None = Inr (event_instance None)"
    by (rule init_EventPageAdmin)
  have b: "init ph_returns uh_returns CustomAdmin None = Inr (book_instance CustomAdmin)"
    by (simp add: init_defs example_defs)
  from helper_class_resolution [OF a] helper_class_resolution [OF b] a b
  show ?thesis
    by (simp add: example_defs)
qed

section \<open>Thumbnails\<close>

text \<open>\<open>admin_thumb\<close> never enters the handler of \<open>AttributeError\<close>: for an object
  without the named attribute, or with a falsy value there, it returns markup; an
  exception can only come from the rendition of a truthy value, outside the \<open>try\<close>.\<close>

lemma admin_thumb_missing_field:
  "obj (thumb_image_field_name self) = None \<Longrightarrow> \<exists>m. admin_thumb rend self obj = Inr m"
  by (auto simp: admin_thumb_def getattr_default_def Let_def split: option.splits)

lemma admin_thumb_error_from_rendition:
  assumes "admin_thumb rend self obj = Inl e"
  shows "\<exists>v. obj (thumb_image_field_name self) = Some v \<and> truthy_attr v \<and>
           rendition_url rend v (thumb_image_filter_spec self) = Inl e"
  using assms
  by (auto simp: admin_thumb_def getattr_default_def Let_def
      split: option.splits sum.splits if_splits)

text \<open>
  Claim C8: when \<open>thumb_image_field_name\<close> names no field of the listed object,
  \<open>admin_thumb\<close> raises \<open>ImproperlyConfigured\<close>. The object \<open>plain_object\<close> has no
  attribute \<open>image\<close>, the mixin's field name; \<open>admin_thumb\<close> returns the empty string
  and raises nothing.
\<close>

theorem admin_thumb_missing_field_no_error:
  "plain_object (thumb_image_field_name ThumbnailMixin) = None \<and>
   admin_thumb example_rendition_url ThumbnailMixin plain_object = Inr EmptyString \<and>
   admin_thumb example_rendition_url ThumbnailMixin plain_object \<noteq>
     Inl (thumb_error ThumbnailMixin)"
  by (simp add: admin_thumb_def getattr_default_def ThumbnailMixin_def plain_object_def)

section \<open>The column of the action buttons\<close>

text \<open>
  Claim C9: on a \<open>ModelAdmin\<close> whose \<open>list_display_add_buttons\<close> is unset, for every
  request, \<open>get_list_display_add_buttons(request)\<close> returns the first element of
  \<open>get_list_display(request)\<close> when that sequence is not empty, and fails with
  \<open>IndexError\<close> when it is empty.
\<close>

theorem list_display_add_buttons_default:
  assumes "list_display_add_buttons (cls self) = None"
  shows "get_list_display_add_buttons self request =
           (if get_list_display self request = [] then Inl IndexError
            else Inr (hd (get_list_display self request)))"
  using assms
  by (cases "get_list_display self request")
     (simp_all add: get_list_display_add_buttons_def)

theorem list_display_add_buttons_default_witness:
  "list_display_add_buttons (cls (book_instance BookAdmin)) = None \<and>
   get_list_display (book_instance BookAdmin) () = [''__str__''] \<and>
   get_list_display_add_buttons (book_instance BookAdmin) () = Inr ''__str__'' \<and>
   list_display_add_buttons (cls (book_instance BareAdmin)) = None \<and>
   get_list_display (book_instance BareAdmin) () = [] \<and>
   get_list_display_add_buttons (book_instance BareAdmin) () = Inl IndexError"
proof -
  have a: "list_display_add_buttons (cls (book_instance BookAdmin)) = None"
    by (simp add: example_defs)
  have b: "list_display_add_buttons (cls (book_instance BareAdmin)) = None"
    by (simp add: example_defs)
  have c: "get_list_display (book_instance BookAdmin) () = [''__str__'']"
    "get_list_display (book_instance BareAdmin) () = []"
    by (simp_all add: get_list_display_def example_defs)
  from list_display_add_buttons_default [OF a, of "()"]
    list_display_add_buttons_default [OF b, of "()"] a b c
  show ?thesis by simp
qed

section \<open>Permissions for registration\<close>

text \<open>
  Claim C10: on a constructed \<open>ModelAdmin\<close>, \<open>get_permissions_for_registration()\<close>
  returns the empty permission queryset when the model is a subclass of \<open>Page\<close> or is in
  \<open>SNIPPET_MODELS\<close>, and otherwise what \<open>get_all_model_permissions()\<close> of the instance's
  permission helper returns.
\<close>

theorem permissions_for_registration:
  assumes "init ph_raises uh_raises c p = Inr self"
  shows "get_permissions_for_registration SNIPPET_MODELS perms self =
           Inr (if issubclass (model c) Page = Inr True \<or> model c \<in> set SNIPPET_MODELS
                then []
                else perms \<lparr>ph_class = get_permission_helper_class self, ph_model = model c,
                            ph_inspect_view_enabled = inspect_view_enabled c\<rparr>)"
proof -
  from init_Inr_class [OF assms] obtain k m
    where k: "model c = PyClass k"
      and self: "self =
       \<lparr>cls = c, opts = m, is_pagemodel = kind_below (cls_kind k) Page, parent = p,
        permission_helper = Some
          \<lparr>ph_class = (case permission_helper_class c of Some h \<Rightarrow> h
                        | None \<Rightarrow> if kind_below (cls_kind k) Page
                                  then PagePermissionHelper else PermissionHelper),
           ph_model = model c, ph_inspect_view_enabled = inspect_view_enabled c\<rparr>,
        url_helper = Some
          \<lparr>uh_class = (case url_helper_class c of Some h \<Rightarrow> h
                        | None \<Rightarrow> if kind_below (cls_kind k) Page
                                  then PageAdminURLHelper else AdminURLHelper),
           uh_model = model c\<rparr>,
        button_helper = None\<rparr>" by blast
  show ?thesis
    unfolding self
    by (simp add: get_permissions_for_registration_def get_permission_helper_class_def k)
qed

theorem permissions_for_registration_witness:
  "init ph_returns uh_returns EventPageAdmin None = Inr (event_instance None) \<and>
   get_permissions_for_registration [] example_permissions (event_instance None) = Inr [] \<and>
   init ph_returns uh_returns BookAdmin None = Inr (book_instance BookAdmin) \<and>
   get_permissions_for_registration [Book] example_permissions (book_instance BookAdmin) =
     Inr [] \<and>
   get_permissions_for_registration [] example_permissions (book_instance BookAdmin) =
     Inr [''add_book'', ''change_book'', ''delete_book'']"
proof -
  have a: "init ph_returns uh_returns EventPageAdmin None = Inr (event_instance None)"
    by (rule init_EventPageAdmin)
  have b: "init ph_returns uh_returns BookAdmin None = Inr (book_instance BookAdmin)"
    by (simp add: init_BookAdmin book_instance_def)
  from permissions_for_registration [OF a, of "[]" example_permissions]
    permissions_for_registration [OF b, of "[]" example_permissions]
    permissions_for_registration [OF b, of "[Book]" example_permissions] a b
  show ?thesis
    by (simp add: example_defs example_permissions_def get_permission_helper_class_def)
qed

end
